theory Spec2Isabelle
  imports Main "HOL-Library.Word"
begin

unbundle bit_operations_syntax

section \<open>RotaryEncoder: data model\<close>

text \<open>
  Shallow embedding of \<^verbatim>\<open>src/RotaryEncoder.h\<close> and \<^verbatim>\<open>src/RotaryEncoder.cpp\<close>.
  The fixed-width members of the class are machine words: \<^verbatim>\<open>int8_t\<close> is \<open>8 word\<close>,
  \<^verbatim>\<open>int32_t\<close> and \<^verbatim>\<open>uint32_t\<close> are \<open>32 word\<close>. A signed member is read with
  \<open>sint\<close>, \<open>+\<close> wraps modulo \<open>2 ^ 32\<close> (the native wrap-around of the targets), and
  \<^verbatim>\<open>>>\<close> on a signed member is the arithmetic shift \<open>signed_drop_bit\<close>.
\<close>

type_synonym int8_t = "8 word"
type_synonym uint8_t = "8 word"
type_synonym int32_t = "32 word"
type_synonym uint32_t = "32 word"

datatype Direction = NOROTATION | CLOCKWISE | COUNTERCLOCKWISE

datatype LatchMode = FOUR3 | FOUR0 | TWO03

text \<open>
  Modelled from the spec: \<^verbatim>\<open>Arduino.h\<close> is not part of the sources. The spec gives the
  digital input source as \<^verbatim>\<open>readPinLevel(pinId) -> {0,1}\<close>; \<open>digitalRead\<close> therefore
  yields one of two levels, whose \<^verbatim>\<open>int\<close> values are 0 and 1.
\<close>

datatype PinLevel = LOW | HIGH

fun level_int :: "PinLevel \<Rightarrow> int" where
  "level_int LOW = 0"
| "level_int HIGH = 1"

record RotaryEncoder =
  u08Pin1 :: uint8_t
  u08Pin2 :: uint8_t
  eMode :: LatchMode
  i08OldState :: int8_t
  i32Position :: int32_t
  i32PositionExt :: int32_t
  i32PositionExtPrev :: int32_t
  u32PositionExtTime :: uint32_t
  u32PositionExtTimePrev :: uint32_t

definition LATCH0 :: int8_t where
  "LATCH0 = 0"

definition LATCH3 :: int8_t where
  "LATCH3 = 3"

definition ci08KNOBDIR :: "int8_t list" where
  "ci08KNOBDIR =
    [0, - 1, 1, 0,
     1, 0, 0, - 1,
     - 1, 0, 0, 1,
     0, 1, - 1, 0]"

text \<open>
  Reading \<^verbatim>\<open>ci08KNOBDIR[i]\<close>: the array has 16 entries and C++ gives no meaning to a
  read outside of it, so such a read is \<open>None\<close>.
\<close>

definition knobdir_at :: "int \<Rightarrow> int8_t option" where
  "knobdir_at i = (if 0 \<le> i \<and> i < 16 then Some (ci08KNOBDIR ! nat i) else None)"

section \<open>Operations\<close>

text \<open>
  The constructor stores the pins and the mode, sets the old state to 3 and the three
  positions to 0. It does not assign the two time stamps: their first values are whatever
  the object's storage holds, here the parameters \<open>t\<close> and \<open>tprev\<close>. The two
  \<^verbatim>\<open>pinMode\<close> calls act on the hardware only.
\<close>

definition RotaryEncoder_new ::
  "uint8_t \<Rightarrow> uint8_t \<Rightarrow> LatchMode \<Rightarrow> uint32_t \<Rightarrow> uint32_t \<Rightarrow> RotaryEncoder" where
  "RotaryEncoder_new pin1 pin2 mode t tprev =
    \<lparr>u08Pin1 = pin1, u08Pin2 = pin2, eMode = mode,
     i08OldState = 3,
     i32Position = 0, i32PositionExt = 0, i32PositionExtPrev = 0,
     u32PositionExtTime = t, u32PositionExtTimePrev = tprev\<rparr>"

definition getPosition :: "RotaryEncoder \<Rightarrow> int32_t" where
  "getPosition s = i32PositionExt s"

definition getDirection :: "RotaryEncoder \<Rightarrow> Direction \<times> RotaryEncoder" where
  "getDirection s =
    (if sint (i32PositionExtPrev s) > sint (i32PositionExt s)
     then (COUNTERCLOCKWISE, s\<lparr>i32PositionExtPrev := i32PositionExt s\<rparr>)
     else if sint (i32PositionExtPrev s) < sint (i32PositionExt s)
     then (CLOCKWISE, s\<lparr>i32PositionExtPrev := i32PositionExt s\<rparr>)
     else (NOROTATION, s\<lparr>i32PositionExtPrev := i32PositionExt s\<rparr>))"

definition setPosition :: "RotaryEncoder \<Rightarrow> int32_t \<Rightarrow> RotaryEncoder" where
  "setPosition s newPosition =
    (case eMode s of
       FOUR3 \<Rightarrow>
         s\<lparr>i32Position := push_bit 2 newPosition OR (i32Position s AND 3),
           i32PositionExt := newPosition,
           i32PositionExtPrev := newPosition\<rparr>
     | FOUR0 \<Rightarrow>
         s\<lparr>i32Position := push_bit 2 newPosition OR (i32Position s AND 3),
           i32PositionExt := newPosition,
           i32PositionExtPrev := newPosition\<rparr>
     | TWO03 \<Rightarrow>
         s\<lparr>i32Position := push_bit 1 newPosition OR (i32Position s AND 1),
           i32PositionExt := newPosition,
           i32PositionExtPrev := newPosition\<rparr>)"

text \<open>
  \<^verbatim>\<open>int8_t thisState = sig1 | (sig2 << 1)\<close>, with \<^verbatim>\<open>sig1 = digitalRead(_u08Pin1)\<close> and
  \<^verbatim>\<open>sig2 = digitalRead(_u08Pin2)\<close>; \<open>rd\<close> is the digital input source.
\<close>

definition thisState :: "RotaryEncoder \<Rightarrow> (uint8_t \<Rightarrow> PinLevel) \<Rightarrow> int8_t" where
  "thisState s rd =
    (let sig1 = level_int (rd (u08Pin1 s));
         sig2 = level_int (rd (u08Pin2 s))
     in word_of_int (sig1 OR push_bit 1 sig2))"

text \<open>
  The latch of one mode: the external position is recomputed and the time stamps move
  on; \<open>now\<close> is what \<^verbatim>\<open>millis()\<close> returns.
\<close>

definition latch :: "nat \<Rightarrow> uint32_t \<Rightarrow> RotaryEncoder \<Rightarrow> RotaryEncoder" where
  "latch n now s =
    s\<lparr>i32PositionExt := signed_drop_bit n (i32Position s),
      u32PositionExtTimePrev := u32PositionExtTime s,
      u32PositionExtTime := now\<rparr>"

text \<open>
  \<open>tick\<close>: the index \<^verbatim>\<open>thisState | (_i08OldState << 2)\<close> is computed on \<^verbatim>\<open>int\<close>, after
  the integral promotion of both \<^verbatim>\<open>int8_t\<close> operands. The table entry is sign-extended
  when it is added to the 32-bit position. The result is \<open>None\<close> when the table would be
  read out of range.
\<close>

definition tick :: "RotaryEncoder \<Rightarrow> (uint8_t \<Rightarrow> PinLevel) \<Rightarrow> uint32_t \<Rightarrow> RotaryEncoder option" where
  "tick s rd now =
    (let this = thisState s rd in
     if i08OldState s \<noteq> this then
       (case knobdir_at (sint this OR push_bit 2 (sint (i08OldState s))) of
          None \<Rightarrow> None
        | Some d \<Rightarrow>
            (let s1 = s\<lparr>i32Position := i32Position s + scast d\<rparr>;
                 s2 = (case eMode s1 of
                         FOUR3 \<Rightarrow> if this = LATCH3 then latch 2 now s1 else s1
                       | FOUR0 \<Rightarrow> if this = LATCH0 then latch 2 now s1 else s1
                       | TWO03 \<Rightarrow> if this = LATCH0 \<or> this = LATCH3 then latch 1 now s1 else s1)
             in Some (s2\<lparr>i08OldState := this\<rparr>)))
     else Some s)"

definition getMillisBetweenRotations :: "RotaryEncoder \<Rightarrow> uint32_t" where
  "getMillisBetweenRotations s = u32PositionExtTime s - u32PositionExtTimePrev s"

text \<open>
  \<open>getRPM\<close>: \<open>now\<close> is what \<^verbatim>\<open>millis()\<close> returns, and \<^verbatim>\<open>max\<close> compares two
  \<^verbatim>\<open>uint32_t\<close> values, as \<open>max\<close> on words does. \<^verbatim>\<open>t * 20\<close> is a \<^verbatim>\<open>uint32_t\<close> product and wraps. The source then divides
  \<^verbatim>\<open>60000.0\<close> by \<^verbatim>\<open>(float)(t * 20)\<close> with no test of the divisor and converts the
  quotient to \<^verbatim>\<open>uint32_t\<close>. For a divisor 0 C++ defines neither the division nor the
  conversion of its result: that is \<open>None\<close>. For a divisor \<open>d > 0\<close> the conversion
  truncates, and the truncated quotient is \<open>60000 div d\<close>: below \<open>2 ^ 24\<close> the divisor is
  exact as a \<^verbatim>\<open>float\<close> and the rounding of the quotient is too small to reach the next
  integer; from \<open>2 ^ 24\<close> on the quotient is below 1.
\<close>

definition getRPM :: "RotaryEncoder \<Rightarrow> uint32_t \<Rightarrow> uint32_t option" where
  "getRPM s now =
    (let timeBetweenLastPositions = u32PositionExtTime s - u32PositionExtTimePrev s;
         timeToLastPosition = now - u32PositionExtTime s;
         t = max timeBetweenLastPositions timeToLastPosition;
         d = t * 20
     in if d = 0 then None else Some (word_of_nat (60000 div unat d)))"

section \<open>Runs of the decoder\<close>

text \<open>
  The caller invokes \<open>tick\<close> once per sample. A run is the list of the samples, each the
  input source and the clock at that call; it stops at the first undefined step.
\<close>

fun ticks :: "RotaryEncoder \<Rightarrow> ((uint8_t \<Rightarrow> PinLevel) \<times> uint32_t) list \<Rightarrow> RotaryEncoder option" where
  "ticks s [] = Some s"
| "ticks s ((rd, now) # xs) = (case tick s rd now of None \<Rightarrow> None | Some s' \<Rightarrow> ticks s' xs)"

text \<open>An input source on which pin \<open>p\<close> reads \<open>l1\<close> and every other pin reads \<open>l2\<close>.\<close>

definition read_levels :: "uint8_t \<Rightarrow> PinLevel \<Rightarrow> PinLevel \<Rightarrow> uint8_t \<Rightarrow> PinLevel" where
  "read_levels p l1 l2 q = (if q = p then l1 else l2)"

section \<open>The specification's vocabulary\<close>

text \<open>
  The definitions of this section follow the words of the specification, not the code:
  its transition table with the key \<open>prevState << 2 | curState\<close>, the shift amount and
  the latch condition of each mode, and the range of a raw state.
\<close>

definition raw_ok :: "int8_t \<Rightarrow> bool" where
  "raw_ok x = (x = 0 \<or> x = 1 \<or> x = 2 \<or> x = 3)"

definition spec_table :: "int list" where
  "spec_table =
    [0, - 1, 1, 0,
     1, 0, 0, - 1,
     - 1, 0, 0, 1,
     0, 1, - 1, 0]"

definition spec_delta :: "int8_t \<Rightarrow> int8_t \<Rightarrow> int" where
  "spec_delta prev cur = spec_table ! (unat cur OR push_bit 2 (unat prev))"

fun spec_shift :: "LatchMode \<Rightarrow> nat" where
  "spec_shift FOUR3 = 2"
| "spec_shift FOUR0 = 2"
| "spec_shift TWO03 = 1"

fun spec_latch :: "LatchMode \<Rightarrow> int8_t \<Rightarrow> bool" where
  "spec_latch FOUR3 st = (st = 3)"
| "spec_latch FOUR0 st = (st = 0)"
| "spec_latch TWO03 st = (st = 0 \<or> st = 3)"

text \<open>
  Steps 3 to 5 of the specification's \<open>tick\<close>, for a sample \<open>this\<close> that differs from the
  stored raw state.
\<close>

definition tick_result :: "RotaryEncoder \<Rightarrow> int8_t \<Rightarrow> uint32_t \<Rightarrow> RotaryEncoder" where
  "tick_result s this now =
     (let p = i32Position s + word_of_int (spec_delta (i08OldState s) this) in
      if spec_latch (eMode s) this
      then s\<lparr>i08OldState := this, i32Position := p,
             i32PositionExt := signed_drop_bit (spec_shift (eMode s)) p,
             u32PositionExtTimePrev := u32PositionExtTime s,
             u32PositionExtTime := now\<rparr>
      else s\<lparr>i08OldState := this, i32Position := p\<rparr>)"

text \<open>The invariant the specification states for the external position.\<close>

definition ext_inv :: "RotaryEncoder \<Rightarrow> bool" where
  "ext_inv s = (i32PositionExt s = signed_drop_bit (spec_shift (eMode s)) (i32Position s))"

text \<open>A valid quadrature step changes exactly one of the two bits.\<close>

definition single_bit :: "int8_t \<Rightarrow> int8_t \<Rightarrow> bool" where
  "single_bit prev cur = (prev XOR cur = 1 \<or> prev XOR cur = 2)"

text \<open>
  A sample latches when it differs from the stored raw state and satisfies the latch
  condition of the mode. A run is quiet when none of its samples latches.
\<close>

definition latches :: "RotaryEncoder \<Rightarrow> (uint8_t \<Rightarrow> PinLevel) \<Rightarrow> bool" where
  "latches s rd = (i08OldState s \<noteq> thisState s rd \<and> spec_latch (eMode s) (thisState s rd))"

fun quiet :: "RotaryEncoder \<Rightarrow> ((uint8_t \<Rightarrow> PinLevel) \<times> uint32_t) list \<Rightarrow> bool" where
  "quiet s [] = True"
| "quiet s ((rd, now) # xs) =
     (\<not> latches s rd \<and> (case tick s rd now of None \<Rightarrow> False | Some s' \<Rightarrow> quiet s' xs))"

section \<open>Basic facts\<close>

lemma thisState_raw_ok: "raw_ok (thisState s rd)"
  by (cases "rd (u08Pin1 s)"; cases "rd (u08Pin2 s)") (simp_all add: thisState_def raw_ok_def)

lemma knobdir_lookup:
  "raw_ok old \<Longrightarrow> raw_ok this \<Longrightarrow>
   knobdir_at (sint this OR push_bit 2 (sint old)) = Some (word_of_int (spec_delta old this))"
  unfolding raw_ok_def
  by (elim disjE) (simp_all add: knobdir_at_def ci08KNOBDIR_def spec_delta_def spec_table_def)

lemma scast_delta:
  "raw_ok old \<Longrightarrow> raw_ok this \<Longrightarrow>
   (scast (word_of_int (spec_delta old this) :: int8_t) :: int32_t) = word_of_int (spec_delta old this)"
  unfolding raw_ok_def
  by (elim disjE) (simp_all add: spec_delta_def spec_table_def)

text \<open>On a changed sample the code's \<open>tick\<close> is the specification's steps 3 to 5.\<close>

lemma tick_changed:
  assumes "raw_ok (i08OldState s)" and "i08OldState s \<noteq> thisState s rd"
  shows "tick s rd now = Some (tick_result s (thisState s rd) now)"
proof -
  have ok: "raw_ok (thisState s rd)" by (rule thisState_raw_ok)
  show ?thesis
    using assms(2)
    by (cases "eMode s")
       (simp_all add: tick_def Let_def knobdir_lookup [OF assms(1) ok] scast_delta [OF assms(1) ok]
          tick_result_def latch_def LATCH0_def LATCH3_def)
qed

lemma tick_same: "i08OldState s = thisState s rd \<Longrightarrow> tick s rd now = Some s"
  by (simp add: tick_def Let_def)

lemma spec_delta_diag: "raw_ok a \<Longrightarrow> spec_delta a a = 0"
  unfolding raw_ok_def by (elim disjE) (simp_all add: spec_delta_def spec_table_def)

lemma thisState_pins:
  "u08Pin1 s' = u08Pin1 s \<Longrightarrow> u08Pin2 s' = u08Pin2 s \<Longrightarrow> thisState s' rd = thisState s rd"
  by (simp add: thisState_def)

lemma tick_result_fields:
  "u08Pin1 (tick_result s c now) = u08Pin1 s"
  "u08Pin2 (tick_result s c now) = u08Pin2 s"
  "eMode (tick_result s c now) = eMode s"
  "i08OldState (tick_result s c now) = c"
  "i32Position (tick_result s c now) = i32Position s + word_of_int (spec_delta (i08OldState s) c)"
  "i32PositionExtPrev (tick_result s c now) = i32PositionExtPrev s"
  by (simp_all add: tick_result_def Let_def)

lemma tick_result_latch:
  "spec_latch (eMode s) c \<Longrightarrow>
   i32PositionExt (tick_result s c now) =
     signed_drop_bit (spec_shift (eMode s)) (i32Position (tick_result s c now)) \<and>
   u32PositionExtTime (tick_result s c now) = now \<and>
   u32PositionExtTimePrev (tick_result s c now) = u32PositionExtTime s"
  by (simp add: tick_result_def Let_def)

lemma tick_result_no_latch:
  "\<not> spec_latch (eMode s) c \<Longrightarrow>
   i32PositionExt (tick_result s c now) = i32PositionExt s \<and>
   u32PositionExtTime (tick_result s c now) = u32PositionExtTime s \<and>
   u32PositionExtTimePrev (tick_result s c now) = u32PositionExtTimePrev s"
  by (simp add: tick_result_def Let_def)

lemma tick_ex:
  assumes "raw_ok (i08OldState s)"
  shows "\<exists>s'. tick s rd now = Some s' \<and>
           u08Pin1 s' = u08Pin1 s \<and> u08Pin2 s' = u08Pin2 s \<and> eMode s' = eMode s \<and>
           i08OldState s' = thisState s rd \<and>
           i32PositionExtPrev s' = i32PositionExtPrev s \<and>
           i32Position s' =
             i32Position s + word_of_int (spec_delta (i08OldState s) (thisState s rd)) \<and>
           (if latches s rd
            then i32PositionExt s' = signed_drop_bit (spec_shift (eMode s)) (i32Position s') \<and>
                 u32PositionExtTime s' = now \<and>
                 u32PositionExtTimePrev s' = u32PositionExtTime s
            else i32PositionExt s' = i32PositionExt s \<and>
                 u32PositionExtTime s' = u32PositionExtTime s \<and>
                 u32PositionExtTimePrev s' = u32PositionExtTimePrev s)"
proof (cases "i08OldState s = thisState s rd")
  case True
  with assms show ?thesis by (simp add: tick_same spec_delta_diag latches_def)
next
  case False
  show ?thesis
  proof (cases "spec_latch (eMode s) (thisState s rd)")
    case True
    with False assms tick_result_latch [OF True, of now] show ?thesis
      by (simp add: tick_changed tick_result_fields latches_def)
  next
    case nl: False
    with False assms tick_result_no_latch [OF nl, of now] show ?thesis
      by (simp add: tick_changed tick_result_fields latches_def)
  qed
qed

lemma ticks_append:
  "ticks s (xs @ ys) = (case ticks s xs of None \<Rightarrow> None | Some s' \<Rightarrow> ticks s' ys)"
  by (induction xs arbitrary: s) (auto split: option.splits)

lemma quiet_run:
  "raw_ok (i08OldState s) \<Longrightarrow> quiet s xs \<Longrightarrow>
   \<exists>s'. ticks s xs = Some s' \<and> raw_ok (i08OldState s') \<and>
        u32PositionExtTime s' = u32PositionExtTime s \<and>
        u32PositionExtTimePrev s' = u32PositionExtTimePrev s"
proof (induction xs arbitrary: s)
  case Nil
  then show ?case by simp
next
  case (Cons x xs)
  obtain rd now where x: "x = (rd, now)" by (cases x)
  from tick_ex [OF Cons.prems(1), of rd now] obtain s1 where
    t: "tick s rd now = Some s1" and o: "i08OldState s1 = thisState s rd"
    and l: "if latches s rd
            then i32PositionExt s1 = signed_drop_bit (spec_shift (eMode s)) (i32Position s1) \<and>
                 u32PositionExtTime s1 = now \<and>
                 u32PositionExtTimePrev s1 = u32PositionExtTime s
            else i32PositionExt s1 = i32PositionExt s \<and>
                 u32PositionExtTime s1 = u32PositionExtTime s \<and>
                 u32PositionExtTimePrev s1 = u32PositionExtTimePrev s"
    by blast
  from Cons.prems(2) have nl: "\<not> latches s rd" and q: "quiet s1 xs" by (simp_all add: x t)
  have ok1: "raw_ok (i08OldState s1)" by (simp add: o thisState_raw_ok)
  from Cons.IH [OF ok1 q] l nl show ?case by (simp add: x t)
qed

subsection \<open>Signed 32-bit arithmetic without wrap-around\<close>

lemma sint_add_no_wrap:
  fixes x y :: int32_t
  assumes "- (2 ^ 31) \<le> sint x + sint y" "sint x + sint y < 2 ^ 31"
  shows "sint (x + y) = sint x + sint y"
  using assms by (simp add: sint_word_add signed_take_bit_int_eq_self)

lemma sint_diff_no_wrap:
  fixes x y :: int32_t
  assumes "- (2 ^ 31) \<le> sint x - sint y" "sint x - sint y < 2 ^ 31"
  shows "sint (x - y) = sint x - sint y"
  using assms by (simp add: sint_word_diff signed_take_bit_int_eq_self)

lemma sdb_plus4:
  fixes x :: int32_t
  assumes "sint x + 4 < 2 ^ 31"
  shows "signed_drop_bit 2 (x + 4) = signed_drop_bit 2 x + 1"
proof (rule signed_word_eqI)
  have lo: "- (2 ^ 31) \<le> sint x" using sint_ge [of x] by simp
  have hi: "sint x < 2 ^ 31" using sint_lt [of x] by simp
  have a: "sint (x + 4) = sint x + 4"
    using sint_add_no_wrap [of x 4] assms lo by simp
  have l: "sint (signed_drop_bit 2 (x + 4)) = sint x div 4 + 1"
    by (simp add: sint_signed_drop_bit_eq a drop_bit_eq_div)
  have b: "sint (signed_drop_bit 2 x) = sint x div 4"
    by (simp add: sint_signed_drop_bit_eq drop_bit_eq_div)
  have "sint (signed_drop_bit 2 x + 1) = sint (signed_drop_bit 2 x) + 1"
    using sint_add_no_wrap [of "signed_drop_bit 2 x" 1] lo hi unfolding b by simp
  with l b show "sint (signed_drop_bit 2 (x + 4)) = sint (signed_drop_bit 2 x + 1)" by simp
qed

lemma sdb_minus4:
  fixes x :: int32_t
  assumes "- (2 ^ 31) \<le> sint x - 4"
  shows "signed_drop_bit 2 (x - 4) = signed_drop_bit 2 x - 1"
proof (rule signed_word_eqI)
  have lo: "- (2 ^ 31) \<le> sint x" using sint_ge [of x] by simp
  have hi: "sint x < 2 ^ 31" using sint_lt [of x] by simp
  have a: "sint (x - 4) = sint x - 4"
    using sint_diff_no_wrap [of x 4] assms hi by simp
  have l: "sint (signed_drop_bit 2 (x - 4)) = sint x div 4 - 1"
    by (simp add: sint_signed_drop_bit_eq a drop_bit_eq_div)
  have b: "sint (signed_drop_bit 2 x) = sint x div 4"
    by (simp add: sint_signed_drop_bit_eq drop_bit_eq_div)
  have "sint (signed_drop_bit 2 x - 1) = sint (signed_drop_bit 2 x) - 1"
    using sint_diff_no_wrap [of "signed_drop_bit 2 x" 1] assms lo hi unfolding b by simp
  with l b show "sint (signed_drop_bit 2 (x - 4)) = sint (signed_drop_bit 2 x - 1)" by simp
qed

lemma sdb_push_or:
  fixes n x :: int32_t
  assumes "k \<le> 31"
  shows "signed_drop_bit k (push_bit k n OR (x AND mask k)) = signed_take_bit (31 - k) n"
  using assms by (intro bit_word_eqI) (auto simp add: bit_simps)

lemma sint_signed_take_bit32:
  fixes n :: int32_t
  shows "m \<le> 31 \<Longrightarrow> sint (signed_take_bit m n) = signed_take_bit m (sint n)"
  by transfer (simp add: signed_take_bit_take_bit min_def)

lemma signed_take_bit_fits:
  fixes n :: int32_t
  assumes "m \<le> 31" "- (2 ^ m) \<le> sint n" "sint n < 2 ^ m"
  shows "signed_take_bit m n = n"
proof (rule signed_word_eqI)
  have "sint (signed_take_bit m n) = signed_take_bit m (sint n)"
    using assms(1) by (rule sint_signed_take_bit32)
  also have "\<dots> = sint n" using assms(2,3) by (simp add: signed_take_bit_int_eq_self)
  finally show "sint (signed_take_bit m n) = sint n" .
qed

lemma unat_sub32: "int (unat (a - b :: uint32_t)) = (int (unat a) - int (unat b)) mod 2 ^ 32"
  by (simp add: uint_word_ariths take_bit_eq_mod flip: uint_nat)

lemma spec_delta_antisym:
  "raw_ok a \<Longrightarrow> raw_ok b \<Longrightarrow> spec_delta a b = - spec_delta b a"
  unfolding raw_ok_def by (elim disjE) (simp_all add: spec_delta_def spec_table_def)

lemmas run_defs = tick_def thisState_def read_levels_def RotaryEncoder_new_def knobdir_at_def
  ci08KNOBDIR_def LATCH0_def LATCH3_def latch_def setPosition_def

lemma single_bit_neq: "single_bit a b \<Longrightarrow> a \<noteq> b"
  by (auto simp add: single_bit_def)

lemma both_bits_delta:
  "(a, b) \<in> {(0, 3), (3, 0), (1, 2), (2, 1)} \<Longrightarrow> spec_delta a b = 0 \<and> raw_ok a \<and> a \<noteq> b"
  by (auto simp add: spec_delta_def spec_table_def raw_ok_def)

text \<open>With two distinct pins every raw state 0..3 is the sample of some input.\<close>

lemma thisState_onto:
  assumes "raw_ok c" and "u08Pin1 s \<noteq> u08Pin2 s"
  shows "\<exists>l1 l2. thisState s (read_levels (u08Pin1 s) l1 l2) = c"
proof -
  have "thisState s (read_levels (u08Pin1 s) LOW LOW) = 0"
    "thisState s (read_levels (u08Pin1 s) HIGH LOW) = 1"
    "thisState s (read_levels (u08Pin1 s) LOW HIGH) = 2"
    "thisState s (read_levels (u08Pin1 s) HIGH HIGH) = 3"
    using assms(2) by (simp_all add: thisState_def read_levels_def)
  with assms(1) show ?thesis unfolding raw_ok_def by metis
qed

section \<open>The position moves by the table's delta\<close>

text \<open>
  Claim C1. From every state whose stored raw state is one of 0..3, and for every sample,
  \<open>tick\<close> returns and the new internal position is the old one plus the entry of the
  specification's 16-entry table at the key \<open>curState | (rawState << 2)\<close>, in 32-bit
  arithmetic; nothing else is added. The four pairs with an unchanged state are covered
  too: their entries are 0.
\<close>

theorem tick_adds_table_delta:
  assumes "raw_ok (i08OldState s)"
  shows "\<exists>s'. tick s rd now = Some s' \<and>
           i32Position s' =
             i32Position s + word_of_int (spec_delta (i08OldState s) (thisState s rd))"
proof (cases "i08OldState s = thisState s rd")
  case True
  with assms show ?thesis by (simp add: tick_same spec_delta_diag)
next
  case False
  with assms show ?thesis by (simp add: tick_changed tick_result_fields)
qed

theorem tick_adds_table_delta_witness:
  "raw_ok (i08OldState (RotaryEncoder_new 2 3 FOUR0 0 0)) \<and>
   (\<exists>s'. tick (RotaryEncoder_new 2 3 FOUR0 0 0) (read_levels 2 HIGH LOW) 7 = Some s' \<and>
      i32Position s' = 1)"
proof -
  have h: "raw_ok (i08OldState (RotaryEncoder_new 2 3 FOUR0 0 0))"
    by (simp add: raw_ok_def RotaryEncoder_new_def)
  from tick_adds_table_delta [OF h, of "read_levels 2 HIGH LOW" 7] h
  show ?thesis
    by (simp add: RotaryEncoder_new_def thisState_def read_levels_def spec_delta_def spec_table_def)
qed

section \<open>An unchanged sample changes nothing\<close>

text \<open>
  Claim C5. When the sampled 2-bit state equals the stored raw state, \<open>tick\<close> returns the
  state it was given: no field is changed.
\<close>

theorem tick_same_state_noop:
  "i08OldState s = thisState s rd \<Longrightarrow> tick s rd now = Some s"
  by (simp add: tick_def Let_def)

theorem tick_same_state_noop_witness:
  "i08OldState (RotaryEncoder_new 2 3 TWO03 0 0) =
     thisState (RotaryEncoder_new 2 3 TWO03 0 0) (read_levels 2 HIGH HIGH) \<and>
   tick (RotaryEncoder_new 2 3 TWO03 0 0) (read_levels 2 HIGH HIGH) 7 =
     Some (RotaryEncoder_new 2 3 TWO03 0 0)"
proof -
  have h: "i08OldState (RotaryEncoder_new 2 3 TWO03 0 0) =
     thisState (RotaryEncoder_new 2 3 TWO03 0 0) (read_levels 2 HIGH HIGH)"
    by (simp add: RotaryEncoder_new_def thisState_def read_levels_def)
  from tick_same_state_noop [OF h] h show ?thesis by simp
qed

section \<open>The direction query\<close>

text \<open>
  Claim C3. \<open>getDirection\<close> returns CLOCKWISE when the external position is greater than
  the previous external position (as signed 32-bit values), COUNTERCLOCKWISE when it is
  smaller and NOROTATION when they are equal. In every branch the state it leaves is the
  given one with the previous external position set to the external position, so a second
  call right after the first returns NOROTATION; the external and the internal position,
  the raw state and both time stamps are as before.
\<close>

theorem getDirection_consumes:
  "fst (getDirection s) =
     (if sint (i32PositionExt s) > sint (i32PositionExtPrev s) then CLOCKWISE
      else if sint (i32PositionExt s) < sint (i32PositionExtPrev s) then COUNTERCLOCKWISE
      else NOROTATION) \<and>
   snd (getDirection s) = s\<lparr>i32PositionExtPrev := i32PositionExt s\<rparr> \<and>
   fst (getDirection (snd (getDirection s))) = NOROTATION \<and>
   i32PositionExt (snd (getDirection s)) = i32PositionExt s \<and>
   i32Position (snd (getDirection s)) = i32Position s \<and>
   i08OldState (snd (getDirection s)) = i08OldState s \<and>
   u32PositionExtTime (snd (getDirection s)) = u32PositionExtTime s \<and>
   u32PositionExtTimePrev (snd (getDirection s)) = u32PositionExtTimePrev s"
  by (simp add: getDirection_def)

section \<open>Overwriting the position\<close>

lemma setPosition_position:
  "i32Position (setPosition s n) =
     push_bit (spec_shift (eMode s)) n OR (i32Position s AND mask (spec_shift (eMode s)))"
  by (cases "eMode s") (simp_all add: setPosition_def mask_eq_exp_minus_1)

lemma take_bit_push_or:
  fixes n x :: "'a::len word"
  shows "take_bit k (push_bit k n OR (x AND mask k)) = take_bit k x"
  by (rule bit_word_eqI) (auto simp add: bit_simps)

lemma drop_bit_push_or:
  fixes n x :: "'a::len word"
  shows "drop_bit k (push_bit k n OR (x AND mask k)) = take_bit (LENGTH('a) - k) n"
  by (rule bit_word_eqI) (auto simp add: bit_simps)

text \<open>
  Claim C4. In every state, \<open>setPosition s n\<close> sets the internal position to
  \<open>n << shift\<close> with the low \<open>shift\<close> bits of the previous internal position kept
  (\<open>shift\<close> is 2 in the four-step modes and 1 in the two-step mode): its low \<open>shift\<close> bits
  are the old ones and the bits above them are those of \<open>n\<close>. The external and the
  previous external position become \<open>n\<close>, so \<open>getPosition\<close> then returns \<open>n\<close>, and both
  time stamps are as before.
\<close>

theorem setPosition_rewrites:
  "i32Position (setPosition s n) =
     push_bit (spec_shift (eMode s)) n OR (i32Position s AND mask (spec_shift (eMode s))) \<and>
   take_bit (spec_shift (eMode s)) (i32Position (setPosition s n)) =
     take_bit (spec_shift (eMode s)) (i32Position s) \<and>
   drop_bit (spec_shift (eMode s)) (i32Position (setPosition s n)) =
     take_bit (32 - spec_shift (eMode s)) n \<and>
   i32PositionExt (setPosition s n) = n \<and>
   i32PositionExtPrev (setPosition s n) = n \<and>
   getPosition (setPosition s n) = n \<and>
   u32PositionExtTime (setPosition s n) = u32PositionExtTime s \<and>
   u32PositionExtTimePrev (setPosition s n) = u32PositionExtTimePrev s"
proof -
  have "i32PositionExt (setPosition s n) = n" "i32PositionExtPrev (setPosition s n) = n"
    "u32PositionExtTime (setPosition s n) = u32PositionExtTime s"
    "u32PositionExtTimePrev (setPosition s n) = u32PositionExtTimePrev s"
    by (cases "eMode s"; simp add: setPosition_def)+
  moreover have "take_bit (spec_shift (eMode s)) (i32Position (setPosition s n)) =
     take_bit (spec_shift (eMode s)) (i32Position s)"
    unfolding setPosition_position by (rule take_bit_push_or)
  moreover have "drop_bit (spec_shift (eMode s)) (i32Position (setPosition s n)) =
     take_bit (32 - spec_shift (eMode s)) n"
    unfolding setPosition_position by (simp only: drop_bit_push_or) simp
  ultimately show ?thesis
    unfolding getPosition_def using setPosition_position [of s n] by blast
qed

section \<open>The external position between latches\<close>

text \<open>
  Claim C2 says that the external position is the internal position shifted right by the
  mode's amount at all times, also after a \<open>tick\<close> whose new raw state is not a latch
  state. That fails: in mode FOUR0 the run 3, 1, 0, 2, 3 from the constructed state ends
  in raw state 3 with internal position 4 and external position 0, while \<open>4 >> 2 = 1\<close>.
\<close>

theorem ext_inv_fails_between_latches:
  "\<exists>s. ticks (RotaryEncoder_new 2 3 FOUR0 0 0)
         [(read_levels 2 HIGH LOW, 1), (read_levels 2 LOW LOW, 2),
          (read_levels 2 LOW HIGH, 3), (read_levels 2 HIGH HIGH, 4)] = Some s \<and>
       i32Position s = 4 \<and> i32PositionExt s = 0 \<and>
       signed_drop_bit (spec_shift (eMode s)) (i32Position s) = 1 \<and> \<not> ext_inv s"
  by (simp add: run_defs ext_inv_def)

text \<open>
  \<open>setPosition\<close> breaks the equality as well when \<open>newPosition << shift\<close> does not fit
  32 bits.
\<close>

lemma setPosition_overflow:
  "\<not> ext_inv (setPosition (RotaryEncoder_new 2 3 FOUR0 0 0) 0x20000000)"
  by (simp add: run_defs ext_inv_def)

text \<open>
  Claim C2, amended. The external position equals the internal position shifted right
  arithmetically by the mode's amount (2 in the four-step modes, 1 in the two-step mode)
  after construction; after every \<open>tick\<close> that latches, that is whose sample differs from
  the stored raw state and satisfies the mode's latch condition; and after
  \<open>setPosition n\<close> when \<open>n << shift\<close> fits 32 signed bits. \<open>getDirection\<close> keeps the
  equality. A \<open>tick\<close> that does not latch leaves the external position as it was, whatever
  it adds to the internal position.
\<close>

theorem ext_inv_established:
  "ext_inv (RotaryEncoder_new p1 p2 m t tp) \<and>
   (raw_ok (i08OldState s) \<and> latches s rd \<longrightarrow>
      (\<exists>s'. tick s rd now = Some s' \<and> ext_inv s')) \<and>
   (raw_ok (i08OldState r) \<and> \<not> latches r rd' \<longrightarrow>
      (\<exists>r'. tick r rd' now' = Some r' \<and> i32PositionExt r' = i32PositionExt r)) \<and>
   (ext_inv q \<longrightarrow> ext_inv (snd (getDirection q))) \<and>
   (- (2 ^ (31 - spec_shift (eMode u))) \<le> sint n \<and> sint n < 2 ^ (31 - spec_shift (eMode u)) \<longrightarrow>
      ext_inv (setPosition u n))"
proof -
  have a: "ext_inv (RotaryEncoder_new p1 p2 m t tp)"
    by (simp add: ext_inv_def RotaryEncoder_new_def)
  have b: "\<exists>s'. tick s rd now = Some s' \<and> ext_inv s'"
    if "raw_ok (i08OldState s)" "latches s rd"
    using tick_ex [OF that(1), of rd now] that(2) by (auto simp add: ext_inv_def)
  have c: "\<exists>r'. tick r rd' now' = Some r' \<and> i32PositionExt r' = i32PositionExt r"
    if "raw_ok (i08OldState r)" "\<not> latches r rd'"
    using tick_ex [OF that(1), of rd' now'] that(2) by auto
  have d: "ext_inv (snd (getDirection q))" if "ext_inv q"
    using that by (simp add: ext_inv_def getDirection_def)
  have e: "ext_inv (setPosition u n)"
    if "- (2 ^ (31 - spec_shift (eMode u))) \<le> sint n" "sint n < 2 ^ (31 - spec_shift (eMode u))"
  proof -
    have k: "spec_shift (eMode u) \<le> 31" by (cases "eMode u") simp_all
    have m: "eMode (setPosition u n) = eMode u" "i32PositionExt (setPosition u n) = n"
      by (cases "eMode u"; simp add: setPosition_def)+
    have "signed_drop_bit (spec_shift (eMode u)) (i32Position (setPosition u n)) =
        signed_take_bit (31 - spec_shift (eMode u)) n"
      unfolding setPosition_position by (rule sdb_push_or [OF k])
    also have "\<dots> = n" by (rule signed_take_bit_fits [OF _ that]) simp
    finally show ?thesis by (simp add: ext_inv_def m)
  qed
  from a b c d e show ?thesis by blast
qed

theorem ext_inv_established_witness:
  "ext_inv (RotaryEncoder_new 2 3 FOUR0 0 0) \<and>
   (\<exists>s'. tick (RotaryEncoder_new 2 3 FOUR0 0 0) (read_levels 2 LOW LOW) 9 = Some s' \<and> ext_inv s') \<and>
   (\<exists>r'. tick (RotaryEncoder_new 2 3 FOUR0 0 0) (read_levels 2 HIGH LOW) 9 = Some r' \<and>
      i32PositionExt r' = 0) \<and>
   ext_inv (snd (getDirection (RotaryEncoder_new 2 3 FOUR0 0 0))) \<and>
   ext_inv (setPosition (RotaryEncoder_new 2 3 FOUR0 0 0) 5)"
proof -
  let ?s = "RotaryEncoder_new 2 3 FOUR0 0 0"
  have h1: "raw_ok (i08OldState ?s) \<and> latches ?s (read_levels 2 LOW LOW)"
    by (simp add: raw_ok_def latches_def RotaryEncoder_new_def thisState_def read_levels_def)
  have h2: "raw_ok (i08OldState ?s) \<and> \<not> latches ?s (read_levels 2 HIGH LOW)"
    by (simp add: raw_ok_def latches_def RotaryEncoder_new_def thisState_def read_levels_def)
  have h3: "ext_inv ?s" by (simp add: ext_inv_def RotaryEncoder_new_def)
  have h4: "- (2 ^ (31 - spec_shift (eMode ?s))) \<le> sint (5 :: int32_t) \<and>
      sint (5 :: int32_t) < 2 ^ (31 - spec_shift (eMode ?s))"
    by (simp add: RotaryEncoder_new_def)
  from ext_inv_established
    [of 2 3 FOUR0 0 0 ?s "read_levels 2 LOW LOW" 9 ?s "read_levels 2 HIGH LOW" 9 ?s ?s 5]
    h1 h2 h3 h4
  have "ext_inv ?s \<and>
   (\<exists>s'. tick ?s (read_levels 2 LOW LOW) 9 = Some s' \<and> ext_inv s') \<and>
   (\<exists>r'. tick ?s (read_levels 2 HIGH LOW) 9 = Some r' \<and> i32PositionExt r' = i32PositionExt ?s) \<and>
   ext_inv (snd (getDirection ?s)) \<and> ext_inv (setPosition ?s 5)"
    by blast
  then show ?thesis by (simp add: RotaryEncoder_new_def)
qed

section \<open>One detent in mode FOUR0\<close>

text \<open>
  Claim C6 speaks of any state whose raw state is 0. It fails at the end of the 32-bit
  range: after \<open>setPosition 0x1FFFFFFF\<close> and the two ticks 3, 1, 0 the raw state is 0 and
  the external position is \<open>0x1FFFFFFF\<close>; the four valid steps 0, 2, 3, 1, 0 have the
  deltas \<open>+1\<close> each, the internal position wraps, and the external position becomes
  \<open>0xE0000000\<close>, which is not the old one plus 1.
\<close>

theorem four0_cycle_wraps:
  "\<exists>s s'. ticks (setPosition (RotaryEncoder_new 2 3 FOUR0 0 0) 0x1FFFFFFF)
            [(read_levels 2 HIGH LOW, 1), (read_levels 2 LOW LOW, 2)] = Some s \<and>
          eMode s = FOUR0 \<and> i08OldState s = 0 \<and> i32PositionExt s = 0x1FFFFFFF \<and>
          ticks s [(read_levels 2 LOW HIGH, 3), (read_levels 2 HIGH HIGH, 4),
                   (read_levels 2 HIGH LOW, 5), (read_levels 2 LOW LOW, 6)] = Some s' \<and>
          i08OldState s' = 0 \<and>
          single_bit 0 2 \<and> single_bit 2 3 \<and> single_bit 3 1 \<and> single_bit 1 0 \<and>
          spec_delta 0 2 + spec_delta 2 3 + spec_delta 3 1 + spec_delta 1 0 = 4 \<and>
          i32PositionExt s' = 0xE0000000 \<and>
          i32PositionExt s' \<noteq> i32PositionExt s + 1"
  by (simp add: run_defs spec_delta_def spec_table_def single_bit_def)

text \<open>
  It fails without any wrap of the sum as well, when the external position is not the
  shifted internal position at the start: \<open>setPosition 0x20000000\<close> at raw state 0 leaves the
  external position \<open>0x20000000\<close> and the internal position \<open>0x80000000\<close>, and the four
  steps then give the external position \<open>0xE0000001\<close>.
\<close>

lemma four0_cycle_after_setPosition_overflow:
  "\<exists>s s'. tick (RotaryEncoder_new 2 3 FOUR0 0 0) (read_levels 2 LOW LOW) 1 = Some s \<and>
          i08OldState (setPosition s 0x20000000) = 0 \<and>
          i32PositionExt (setPosition s 0x20000000) = 0x20000000 \<and>
          sint (i32Position (setPosition s 0x20000000)) + 4 < 2 ^ 31 \<and>
          ticks (setPosition s 0x20000000)
            [(read_levels 2 LOW HIGH, 3), (read_levels 2 HIGH HIGH, 4),
             (read_levels 2 HIGH LOW, 5), (read_levels 2 LOW LOW, 6)] = Some s' \<and>
          i32PositionExt s' = 0xE0000001"
  by (simp add: run_defs)

text \<open>
  Claim C6, amended. In mode FOUR0, from a state whose raw state is 0 and whose external
  position is the internal position shifted right by 2 (as a latch leaves it), four ticks
  whose transitions each change exactly one bit and whose last sample is 0 all return, and
  the external position is the old one plus 1 when the four table deltas sum to \<open>+4\<close> and
  the internal position plus 4 does not exceed the 32-bit signed range, and the old one
  minus 1 when they sum to \<open>-4\<close> and the internal position minus 4 stays in that range.
\<close>

theorem four0_cycle_steps_external:
  assumes mode: "eMode s = FOUR0" and old: "i08OldState s = 0"
    and inv: "i32PositionExt s = signed_drop_bit 2 (i32Position s)"
    and v1: "single_bit 0 (thisState s rd1)"
    and v2: "single_bit (thisState s rd1) (thisState s rd2)"
    and v3: "single_bit (thisState s rd2) (thisState s rd3)"
    and v4: "single_bit (thisState s rd3) (thisState s rd4)"
    and fin: "thisState s rd4 = 0"
  shows "\<exists>s'. ticks s [(rd1, n1), (rd2, n2), (rd3, n3), (rd4, n4)] = Some s' \<and>
           i08OldState s' = 0 \<and>
           (spec_delta 0 (thisState s rd1) + spec_delta (thisState s rd1) (thisState s rd2) +
              spec_delta (thisState s rd2) (thisState s rd3) + spec_delta (thisState s rd3) 0 = 4 \<and>
            sint (i32Position s) + 4 < 2 ^ 31 \<longrightarrow>
              i32PositionExt s' = i32PositionExt s + 1 \<and>
              sint (i32PositionExt s') = sint (i32PositionExt s) + 1) \<and>
           (spec_delta 0 (thisState s rd1) + spec_delta (thisState s rd1) (thisState s rd2) +
              spec_delta (thisState s rd2) (thisState s rd3) + spec_delta (thisState s rd3) 0 = - 4 \<and>
            - (2 ^ 31) \<le> sint (i32Position s) - 4 \<longrightarrow>
              i32PositionExt s' = i32PositionExt s - 1 \<and>
              sint (i32PositionExt s') = sint (i32PositionExt s) - 1)"
proof -
  let ?c1 = "thisState s rd1" and ?c2 = "thisState s rd2" and ?c3 = "thisState s rd3"
  have ok: "raw_ok (i08OldState s)" by (simp add: old raw_ok_def)
  from tick_ex [OF ok, of rd1 n1] obtain s1 where
    t1: "tick s rd1 n1 = Some s1" and p1: "u08Pin1 s1 = u08Pin1 s" "u08Pin2 s1 = u08Pin2 s"
    and o1: "i08OldState s1 = ?c1"
    and i1: "i32Position s1 = i32Position s + word_of_int (spec_delta 0 ?c1)"
    by (auto simp add: old)
  have ok1: "raw_ok (i08OldState s1)" by (simp add: o1 thisState_raw_ok)
  have st1: "thisState s1 rd = thisState s rd" for rd by (rule thisState_pins [OF p1])
  from tick_ex [OF ok1, of rd2 n2] obtain s2 where
    t2: "tick s1 rd2 n2 = Some s2" and p2: "u08Pin1 s2 = u08Pin1 s" "u08Pin2 s2 = u08Pin2 s"
    and o2: "i08OldState s2 = ?c2"
    and i2: "i32Position s2 = i32Position s1 + word_of_int (spec_delta ?c1 ?c2)"
    by (auto simp add: st1 o1 p1)
  have ok2: "raw_ok (i08OldState s2)" by (simp add: o2 thisState_raw_ok)
  have st2: "thisState s2 rd = thisState s rd" for rd by (rule thisState_pins [OF p2])
  from tick_ex [OF ok2, of rd3 n3] obtain s3 where
    t3: "tick s2 rd3 n3 = Some s3" and p3: "u08Pin1 s3 = u08Pin1 s" "u08Pin2 s3 = u08Pin2 s"
    and m3: "eMode s3 = eMode s2"
    and o3: "i08OldState s3 = ?c3"
    and i3: "i32Position s3 = i32Position s2 + word_of_int (spec_delta ?c2 ?c3)"
    by (auto simp add: st2 o2 p2)
  have ok3: "raw_ok (i08OldState s3)" by (simp add: o3 thisState_raw_ok)
  have st3: "thisState s3 rd = thisState s rd" for rd by (rule thisState_pins [OF p3])
  have m: "eMode s3 = FOUR0"
    using tick_ex [OF ok, of rd1 n1] tick_ex [OF ok1, of rd2 n2] tick_ex [OF ok2, of rd3 n3]
      t1 t2 t3 mode by auto
  have l4: "latches s3 rd4"
    using single_bit_neq [OF v4] by (simp add: latches_def st3 o3 m fin)
  from tick_ex [OF ok3, of rd4 n4] l4 obtain s4 where
    t4: "tick s3 rd4 n4 = Some s4" and o4: "i08OldState s4 = 0"
    and i4: "i32Position s4 = i32Position s3 + word_of_int (spec_delta ?c3 0)"
    and e4: "i32PositionExt s4 = signed_drop_bit 2 (i32Position s4)"
    by (auto simp add: st3 o3 m fin)
  have pos: "i32Position s4 = i32Position s +
      word_of_int (spec_delta 0 ?c1 + spec_delta ?c1 ?c2 + spec_delta ?c2 ?c3 + spec_delta ?c3 0)"
    by (simp add: i1 i2 i3 i4)
  have up: "i32PositionExt s4 = i32PositionExt s + 1 \<and>
      sint (i32PositionExt s4) = sint (i32PositionExt s) + 1"
    if sum: "spec_delta 0 ?c1 + spec_delta ?c1 ?c2 + spec_delta ?c2 ?c3 + spec_delta ?c3 0 = 4"
      and room: "sint (i32Position s) + 4 < 2 ^ 31"
  proof -
    have lo: "- (2 ^ 31) \<le> sint (i32Position s)" using sint_ge [of "i32Position s"] by simp
    have w: "i32PositionExt s4 = i32PositionExt s + 1"
      unfolding e4 pos sum inv using sdb_plus4 [OF room] by simp
    have "sint (i32PositionExt s) = sint (i32Position s) div 4"
      by (simp add: inv sint_signed_drop_bit_eq drop_bit_eq_div)
    with sint_add_no_wrap [of "i32PositionExt s" 1] lo room
    have "sint (i32PositionExt s + 1) = sint (i32PositionExt s) + 1" by simp
    with w show ?thesis by simp
  qed
  have down: "i32PositionExt s4 = i32PositionExt s - 1 \<and>
      sint (i32PositionExt s4) = sint (i32PositionExt s) - 1"
    if sum: "spec_delta 0 ?c1 + spec_delta ?c1 ?c2 + spec_delta ?c2 ?c3 + spec_delta ?c3 0 = - 4"
      and room: "- (2 ^ 31) \<le> sint (i32Position s) - 4"
  proof -
    have hi: "sint (i32Position s) < 2 ^ 31" using sint_lt [of "i32Position s"] by simp
    have w: "i32PositionExt s4 = i32PositionExt s - 1"
      unfolding e4 pos sum inv using sdb_minus4 [OF room] by simp
    have "sint (i32PositionExt s) = sint (i32Position s) div 4"
      by (simp add: inv sint_signed_drop_bit_eq drop_bit_eq_div)
    with sint_diff_no_wrap [of "i32PositionExt s" 1] hi room
    have "sint (i32PositionExt s - 1) = sint (i32PositionExt s) - 1" by simp
    with w show ?thesis by simp
  qed
  have "ticks s [(rd1, n1), (rd2, n2), (rd3, n3), (rd4, n4)] = Some s4"
    by (simp add: t1 t2 t3 t4)
  with o4 up down show ?thesis by blast
qed

theorem four0_cycle_steps_external_witness:
  "(\<exists>s'. ticks (RotaryEncoder_new 2 3 FOUR0 0 0\<lparr>i08OldState := 0\<rparr>)
           [(read_levels 2 LOW HIGH, 1), (read_levels 2 HIGH HIGH, 2),
            (read_levels 2 HIGH LOW, 3), (read_levels 2 LOW LOW, 4)] = Some s' \<and>
         i08OldState s' = 0 \<and> i32PositionExt s' = 1 \<and> sint (i32PositionExt s') = 1) \<and>
   (\<exists>s'. ticks (RotaryEncoder_new 2 3 FOUR0 0 0\<lparr>i08OldState := 0\<rparr>)
           [(read_levels 2 HIGH LOW, 1), (read_levels 2 HIGH HIGH, 2),
            (read_levels 2 LOW HIGH, 3), (read_levels 2 LOW LOW, 4)] = Some s' \<and>
         i08OldState s' = 0 \<and> i32PositionExt s' = - 1 \<and> sint (i32PositionExt s') = - 1)"
proof -
  let ?s = "RotaryEncoder_new 2 3 FOUR0 0 0\<lparr>i08OldState := 0\<rparr>"
  have st: "thisState ?s (read_levels 2 LOW HIGH) = 2" "thisState ?s (read_levels 2 HIGH HIGH) = 3"
    "thisState ?s (read_levels 2 HIGH LOW) = 1" "thisState ?s (read_levels 2 LOW LOW) = 0"
    by (simp_all add: thisState_def read_levels_def RotaryEncoder_new_def)
  have m: "eMode ?s = FOUR0" and o: "i08OldState ?s = 0"
    and i: "i32PositionExt ?s = signed_drop_bit 2 (i32Position ?s)"
    and p: "i32Position ?s = 0" "i32PositionExt ?s = 0"
    by (simp_all add: RotaryEncoder_new_def)
  have sb: "single_bit 0 2" "single_bit 2 3" "single_bit 3 1" "single_bit 1 0"
    "single_bit 0 1" "single_bit 1 3" "single_bit 3 2" "single_bit 2 0"
    by (simp_all add: single_bit_def)
  have sums: "spec_delta 0 2 + spec_delta 2 3 + spec_delta 3 1 + spec_delta 1 0 = 4"
    "spec_delta 0 1 + spec_delta 1 3 + spec_delta 3 2 + spec_delta 2 0 = - 4"
    by (simp_all add: spec_delta_def spec_table_def)
  have cw: "\<exists>s'. ticks ?s [(read_levels 2 LOW HIGH, 1), (read_levels 2 HIGH HIGH, 2),
            (read_levels 2 HIGH LOW, 3), (read_levels 2 LOW LOW, 4)] = Some s' \<and>
         i08OldState s' = 0 \<and> i32PositionExt s' = 1 \<and> sint (i32PositionExt s') = 1"
    using four0_cycle_steps_external [of ?s "read_levels 2 LOW HIGH" "read_levels 2 HIGH HIGH"
        "read_levels 2 HIGH LOW" "read_levels 2 LOW LOW" 1 2 3 4, OF m o i]
    unfolding st p using sb sums by simp
  have ccw: "\<exists>s'. ticks ?s [(read_levels 2 HIGH LOW, 1), (read_levels 2 HIGH HIGH, 2),
            (read_levels 2 LOW HIGH, 3), (read_levels 2 LOW LOW, 4)] = Some s' \<and>
         i08OldState s' = 0 \<and> i32PositionExt s' = - 1 \<and> sint (i32PositionExt s') = - 1"
    using four0_cycle_steps_external [of ?s "read_levels 2 HIGH LOW" "read_levels 2 HIGH HIGH"
        "read_levels 2 LOW HIGH" "read_levels 2 LOW LOW" 1 2 3 4, OF m o i]
    unfolding st p using sb sums by simp
  from cw ccw show ?thesis by (rule conjI)
qed

section \<open>The speed estimate\<close>

text \<open>
  Claim C7 says that \<open>getRPM\<close> returns a defined sentinel instead of dividing by zero when
  \<open>t\<close> is 0. The code has no such test: after two latches in the same millisecond, and
  asked in that millisecond, \<open>t\<close> is 0, the divisor \<open>t * 20\<close> is 0 and the division is
  carried out, so no defined value is returned.
\<close>

theorem getRPM_zero_interval_undefined:
  "\<exists>s. ticks (RotaryEncoder_new 2 3 TWO03 0 0)
         [(read_levels 2 LOW LOW, 500), (read_levels 2 HIGH HIGH, 500)] = Some s \<and>
       u32PositionExtTime s = 500 \<and> u32PositionExtTimePrev s = 500 \<and>
       max (u32PositionExtTime s - u32PositionExtTimePrev s) (500 - u32PositionExtTime s) = 0 \<and>
       getRPM s 500 = None"
  by (simp add: run_defs getRPM_def)

text \<open>The 32-bit product \<open>t * 20\<close> is 0 also for \<open>t = 2 ^ 30\<close>.\<close>

lemma getRPM_product_wraps:
  "getRPM (RotaryEncoder_new 2 3 FOUR0 0x40000000 0) 0x40000000 = None"
  by (simp add: getRPM_def RotaryEncoder_new_def)

text \<open>
  Claim C7, amended. Whenever the 32-bit product \<open>t * 20\<close> is not 0, for
  \<open>t = max (lastChangeTime - priorChangeTime) (now - lastChangeTime)\<close>, \<open>getRPM\<close> returns a
  defined value: 60000 divided by that product, rounded down, which is at most 60000.
\<close>

theorem getRPM_defined:
  assumes "max (u32PositionExtTime s - u32PositionExtTimePrev s) (now - u32PositionExtTime s) * 20 \<noteq> 0"
  shows "\<exists>v. getRPM s now = Some v \<and>
           unat v = 60000 div
             ((unat (max (u32PositionExtTime s - u32PositionExtTimePrev s)
                         (now - u32PositionExtTime s)) * 20) mod 2 ^ 32) \<and>
           unat v \<le> 60000"
proof -
  let ?t = "max (u32PositionExtTime s - u32PositionExtTimePrev s) (now - u32PositionExtTime s)"
  have d: "unat (?t * 20) = (unat ?t * 20) mod 2 ^ 32"
    by (simp add: unat_word_ariths)
  have le: "60000 div unat (?t * 20) \<le> 60000" by (rule div_le_dividend)
  have "60000 div unat (?t * 20) < 2 ^ 32"
    by (rule le_less_trans [OF le]) simp
  then have u: "unat (word_of_nat (60000 div unat (?t * 20)) :: uint32_t) = 60000 div unat (?t * 20)"
    by (simp add: unat_of_nat)
  have g: "getRPM s now = Some (word_of_nat (60000 div unat (?t * 20)))"
    using assms by (simp add: getRPM_def Let_def)
  show ?thesis unfolding g using u le d by simp
qed

theorem getRPM_defined_witness:
  "\<exists>v. getRPM (RotaryEncoder_new 2 3 FOUR0 150 100) 160 = Some v \<and> unat v = 60 \<and> unat v \<le> 60000"
proof -
  let ?s = "RotaryEncoder_new 2 3 FOUR0 150 100"
  have h: "max (u32PositionExtTime ?s - u32PositionExtTimePrev ?s) (160 - u32PositionExtTime ?s) * 20 \<noteq> 0"
    by (simp add: RotaryEncoder_new_def)
  from getRPM_defined [OF h] show ?thesis
    by (simp add: RotaryEncoder_new_def)
qed

section \<open>The time between two latches\<close>

text \<open>
  Claim C8. \<open>getMillisBetweenRotations\<close> returns \<open>lastChangeTime - priorChangeTime\<close> in
  unsigned 32-bit arithmetic, that is the difference of the two values modulo \<open>2 ^ 32\<close>.
  With the prior time \<open>0xFFFFFFF0\<close> and the last time 10 it returns 26. After a latch at
  time 100, any run of samples that do not latch, and a latch at time 150, it returns 50.
  The operation is a function of the state and returns no new state: it changes nothing.
\<close>

theorem getMillisBetweenRotations_modular:
  "getMillisBetweenRotations s = u32PositionExtTime s - u32PositionExtTimePrev s \<and>
   int (unat (getMillisBetweenRotations s)) =
     (int (unat (u32PositionExtTime s)) - int (unat (u32PositionExtTimePrev s))) mod 2 ^ 32 \<and>
   getMillisBetweenRotations (s\<lparr>u32PositionExtTimePrev := 0xFFFFFFF0, u32PositionExtTime := 10\<rparr>) = 26 \<and>
   (raw_ok (i08OldState r) \<and> latches r rd1 \<and> tick r rd1 100 = Some r1 \<and>
    quiet r1 mid \<and> ticks r1 mid = Some r2 \<and> latches r2 rd2 \<longrightarrow>
    (\<exists>r3. ticks r ((rd1, 100) # mid @ [(rd2, 150)]) = Some r3 \<and>
          getMillisBetweenRotations r3 = 50))"
proof -
  have a: "getMillisBetweenRotations s = u32PositionExtTime s - u32PositionExtTimePrev s"
    by (simp add: getMillisBetweenRotations_def)
  have b: "int (unat (getMillisBetweenRotations s)) =
     (int (unat (u32PositionExtTime s)) - int (unat (u32PositionExtTimePrev s))) mod 2 ^ 32"
    unfolding a by (rule unat_sub32)
  have c: "getMillisBetweenRotations (s\<lparr>u32PositionExtTimePrev := 0xFFFFFFF0, u32PositionExtTime := 10\<rparr>) = 26"
    by (simp add: getMillisBetweenRotations_def)
  have d: "\<exists>r3. ticks r ((rd1, 100) # mid @ [(rd2, 150)]) = Some r3 \<and>
          getMillisBetweenRotations r3 = 50"
    if ok: "raw_ok (i08OldState r)" and l1: "latches r rd1" and t1: "tick r rd1 100 = Some r1"
      and q: "quiet r1 mid" and tm: "ticks r1 mid = Some r2" and l2: "latches r2 rd2"
  proof -
    from tick_ex [OF ok, of rd1 100] t1 l1
    have o1: "i08OldState r1 = thisState r rd1" and tm1: "u32PositionExtTime r1 = 100"
      by auto
    have ok1: "raw_ok (i08OldState r1)" by (simp add: o1 thisState_raw_ok)
    from quiet_run [OF ok1 q] tm
    have ok2: "raw_ok (i08OldState r2)" and tm2: "u32PositionExtTime r2 = 100"
      by (auto simp add: tm1)
    from tick_ex [OF ok2, of rd2 150] l2 obtain r3 where
      t3: "tick r2 rd2 150 = Some r3" and "u32PositionExtTime r3 = 150"
      and "u32PositionExtTimePrev r3 = 100"
      by (auto simp add: tm2)
    then have "getMillisBetweenRotations r3 = 50"
      by (simp add: getMillisBetweenRotations_def)
    then show ?thesis by (simp add: t1 ticks_append tm t3)
  qed
  from a b c d show ?thesis by blast
qed

theorem getMillisBetweenRotations_modular_witness:
  "\<exists>r3. ticks (RotaryEncoder_new 2 3 FOUR0 0 0)
          [(read_levels 2 LOW LOW, 100), (read_levels 2 HIGH LOW, 120), (read_levels 2 LOW LOW, 150)] = Some r3 \<and>
        getMillisBetweenRotations r3 = 50"
proof -
  let ?r = "RotaryEncoder_new 2 3 FOUR0 0 0"
  let ?r1 = "?r\<lparr>i08OldState := 0, u32PositionExtTime := 100\<rparr>"
  let ?r2 = "?r\<lparr>i08OldState := 1, i32Position := - 1, u32PositionExtTime := 100\<rparr>"
  have t1: "tick ?r (read_levels 2 LOW LOW) 100 = Some ?r1"
    by (simp add: tick_def thisState_def read_levels_def RotaryEncoder_new_def knobdir_at_def
        ci08KNOBDIR_def LATCH0_def LATCH3_def latch_def)
  have t2: "tick ?r1 (read_levels 2 HIGH LOW) 120 = Some ?r2"
    by (simp add: tick_def thisState_def read_levels_def RotaryEncoder_new_def knobdir_at_def
        ci08KNOBDIR_def LATCH0_def LATCH3_def latch_def)
  have h: "raw_ok (i08OldState ?r) \<and> latches ?r (read_levels 2 LOW LOW) \<and>
      tick ?r (read_levels 2 LOW LOW) 100 = Some ?r1 \<and>
      quiet ?r1 [(read_levels 2 HIGH LOW, 120)] \<and>
      ticks ?r1 [(read_levels 2 HIGH LOW, 120)] = Some ?r2 \<and>
      latches ?r2 (read_levels 2 LOW LOW)"
    unfolding t1 t2 ticks.simps quiet.simps
    by (simp add: raw_ok_def latches_def thisState_def read_levels_def RotaryEncoder_new_def t2)
  from getMillisBetweenRotations_modular
    [of ?r ?r "read_levels 2 LOW LOW" ?r1 "[(read_levels 2 HIGH LOW, 120)]" ?r2 "read_levels 2 LOW LOW"] h
  show ?thesis by simp
qed

section \<open>Antisymmetry of the table\<close>

text \<open>
  Claim C9. For all raw states \<open>prev\<close> and \<open>cur\<close> in 0..3 the table entry at
  \<open>(prev << 2) | cur\<close> is the negation of the entry at \<open>(cur << 2) | prev\<close>. So two ticks
  that go from the stored raw state to any sample and back return, and leave the internal
  position and the raw state where they were.
\<close>

theorem table_antisymmetric_bounce:
  "(\<forall>prev\<in>{0, 1, 2, 3::nat}. \<forall>cur\<in>{0, 1, 2, 3::nat}.
      sint (ci08KNOBDIR ! (push_bit 2 prev OR cur)) =
        - sint (ci08KNOBDIR ! (push_bit 2 cur OR prev))) \<and>
   (raw_ok (i08OldState s) \<and> thisState s rd2 = i08OldState s \<longrightarrow>
      (\<exists>s'. ticks s [(rd1, n1), (rd2, n2)] = Some s' \<and>
            i08OldState s' = i08OldState s \<and> i32Position s' = i32Position s))"
proof -
  have a: "\<forall>prev\<in>{0, 1, 2, 3::nat}. \<forall>cur\<in>{0, 1, 2, 3::nat}.
      sint (ci08KNOBDIR ! (push_bit 2 prev OR cur)) =
        - sint (ci08KNOBDIR ! (push_bit 2 cur OR prev))"
    by (simp add: ci08KNOBDIR_def)
  have b: "\<exists>s'. ticks s [(rd1, n1), (rd2, n2)] = Some s' \<and>
            i08OldState s' = i08OldState s \<and> i32Position s' = i32Position s"
    if ok: "raw_ok (i08OldState s)" and ret: "thisState s rd2 = i08OldState s"
  proof -
    from tick_ex [OF ok, of rd1 n1] obtain s1 where
      t1: "tick s rd1 n1 = Some s1" and p1: "u08Pin1 s1 = u08Pin1 s" "u08Pin2 s1 = u08Pin2 s"
      and o1: "i08OldState s1 = thisState s rd1"
      and i1: "i32Position s1 =
             i32Position s + word_of_int (spec_delta (i08OldState s) (thisState s rd1))"
      by blast
    have ok1: "raw_ok (i08OldState s1)" by (simp add: o1 thisState_raw_ok)
    have st: "thisState s1 rd2 = i08OldState s" using thisState_pins [OF p1] ret by simp
    from tick_ex [OF ok1, of rd2 n2] obtain s2 where
      t2: "tick s1 rd2 n2 = Some s2" and o2: "i08OldState s2 = i08OldState s"
      and i2: "i32Position s2 =
             i32Position s1 + word_of_int (spec_delta (thisState s rd1) (i08OldState s))"
      by (auto simp add: st o1)
    have "spec_delta (thisState s rd1) (i08OldState s) = - spec_delta (i08OldState s) (thisState s rd1)"
      by (rule spec_delta_antisym [OF thisState_raw_ok ok])
    with i1 i2 have "i32Position s2 = i32Position s" by simp
    with o2 show ?thesis by (simp add: t1 t2)
  qed
  from a b show ?thesis by blast
qed

theorem table_antisymmetric_bounce_witness:
  "\<exists>s'. ticks (RotaryEncoder_new 2 3 FOUR3 0 0)
          [(read_levels 2 HIGH LOW, 5), (read_levels 2 HIGH HIGH, 6)] = Some s' \<and>
        i08OldState s' = 3 \<and> i32Position s' = 0"
proof -
  have h: "raw_ok (i08OldState (RotaryEncoder_new 2 3 FOUR3 0 0)) \<and>
      thisState (RotaryEncoder_new 2 3 FOUR3 0 0) (read_levels 2 HIGH HIGH) =
        i08OldState (RotaryEncoder_new 2 3 FOUR3 0 0)"
    by (simp add: raw_ok_def RotaryEncoder_new_def thisState_def read_levels_def)
  from table_antisymmetric_bounce
    [of "RotaryEncoder_new 2 3 FOUR3 0 0" "read_levels 2 HIGH HIGH" "read_levels 2 HIGH LOW" 5 6] h
  have "\<exists>s'. ticks (RotaryEncoder_new 2 3 FOUR3 0 0)
          [(read_levels 2 HIGH LOW, 5), (read_levels 2 HIGH HIGH, 6)] = Some s' \<and>
        i08OldState s' = i08OldState (RotaryEncoder_new 2 3 FOUR3 0 0) \<and>
        i32Position s' = i32Position (RotaryEncoder_new 2 3 FOUR3 0 0)"
    by blast
  then show ?thesis by (simp add: RotaryEncoder_new_def)
qed

section \<open>Transitions that flip both bits\<close>

text \<open>
  Claim C10. For a tick whose transition is one of (0,3), (3,0), (1,2), (2,1), the
  internal position is unchanged and the stored raw state becomes the sample. When the
  sample satisfies the mode's latch condition the latch fires: the external position is
  the internal position shifted right by the mode's amount, the prior time becomes the
  last time and the last time becomes \<open>now\<close>. Otherwise the external position and both
  time stamps are as before.
\<close>

theorem tick_both_bits_flip:
  assumes "(i08OldState s, thisState s rd) \<in> {(0, 3), (3, 0), (1, 2), (2, 1)}"
  shows "\<exists>s'. tick s rd now = Some s' \<and>
           i32Position s' = i32Position s \<and>
           i08OldState s' = thisState s rd \<and>
           (if spec_latch (eMode s) (thisState s rd)
            then i32PositionExt s' = signed_drop_bit (spec_shift (eMode s)) (i32Position s) \<and>
                 u32PositionExtTimePrev s' = u32PositionExtTime s \<and>
                 u32PositionExtTime s' = now
            else i32PositionExt s' = i32PositionExt s \<and>
                 u32PositionExtTimePrev s' = u32PositionExtTimePrev s \<and>
                 u32PositionExtTime s' = u32PositionExtTime s)"
proof -
  from both_bits_delta [OF assms]
  have d: "spec_delta (i08OldState s) (thisState s rd) = 0" and ok: "raw_ok (i08OldState s)"
    and ne: "i08OldState s \<noteq> thisState s rd"
    by simp_all
  from tick_ex [OF ok, of rd now] show ?thesis
    by (auto simp add: d latches_def ne)
qed

theorem tick_both_bits_flip_witness:
  "\<exists>s'. tick (RotaryEncoder_new 2 3 TWO03 40 30) (read_levels 2 LOW LOW) 50 = Some s' \<and>
     i32Position s' = 0 \<and> i08OldState s' = 0 \<and> i32PositionExt s' = 0 \<and>
     u32PositionExtTimePrev s' = 40 \<and> u32PositionExtTime s' = 50"
proof -
  have h: "(i08OldState (RotaryEncoder_new 2 3 TWO03 40 30),
            thisState (RotaryEncoder_new 2 3 TWO03 40 30) (read_levels 2 LOW LOW))
           \<in> {(0, 3), (3, 0), (1, 2), (2, 1)}"
    by (simp add: RotaryEncoder_new_def thisState_def read_levels_def)
  from tick_both_bits_flip [OF h, of 50] show ?thesis
    by (simp add: RotaryEncoder_new_def thisState_def read_levels_def)
qed

end
